theory Spec2Isabelle
  imports Main "HOL-Library.Sublist"
begin

section \<open>JavaScript string operations used by the sources\<close>

text \<open>
  Strings are byte lists holding the UTF-8 encoding of the JavaScript string. The
  operations below only compare, cut and join, and every pattern the sources search
  for is well-formed text, so they agree with the UTF-16 operations of the runtime.
\<close>

definition startsWith :: "string \<Rightarrow> string \<Rightarrow> bool" where
  "startsWith s p = (take (length p) s = p)"

definition endsWith :: "string \<Rightarrow> string \<Rightarrow> bool" where
  "endsWith s p = (length p \<le> length s \<and> drop (length s - length p) s = p)"

fun includes_str :: "string \<Rightarrow> string \<Rightarrow> bool" where
  "includes_str [] p = (p = [])"
| "includes_str (c # cs) p = (startsWith (c # cs) p \<or> includes_str cs p)"

definition substring :: "string \<Rightarrow> nat \<Rightarrow> string" where
  "substring s n = drop n s"

section \<open>HTTP client wrapper\<close>

subsection \<open>processUrl\<close>

definition processUrl :: "string \<Rightarrow> string" where
  "processUrl url =
     (if startsWith url ''/api/'' \<or> startsWith url ''http://'' \<or> startsWith url ''https://''
      then url
      else ''/api/'' @ (if startsWith url ''/'' then substring url 1 else url))"

subsection \<open>Request keys and the table of pending requests\<close>

text \<open>
  The request configuration, with the fields the wrapper reads. \<open>params\<close> and
  \<open>data\<close> hold values of any type \<open>'j\<close>; \<open>JSON.stringify\<close> is a
  parameter \<open>stringify\<close> of that type (a result of \<open>None\<close> is
  \<open>undefined\<close>). A field that is absent is \<open>None\<close>.
\<close>

record 'j RequestConfig =
  url :: "string option"
  http_method :: "string option"
  params :: "'j option"
  data :: "'j option"
  cancelToken :: "nat option"
  retry :: "int option"
  retryDelay :: "int option"

definition empty_config :: "'j RequestConfig" where
  "empty_config =
     \<lparr>url = None, http_method = None, params = None, data = None, cancelToken = None,
      retry = None, retryDelay = None\<rparr>"

text \<open>\<open>JSON.stringify(undefined)\<close> is \<open>undefined\<close>.\<close>

definition JSON_stringify :: "('j \<Rightarrow> string option) \<Rightarrow> 'j option \<Rightarrow> string option" where
  "JSON_stringify stringify v = (case v of None \<Rightarrow> None | Some x \<Rightarrow> stringify x)"

text \<open>\<open>Array.prototype.join\<close> writes an undefined element as the empty string.\<close>

fun join :: "string option list \<Rightarrow> string \<Rightarrow> string" where
  "join [] sep = []"
| "join [x] sep = (case x of None \<Rightarrow> [] | Some s \<Rightarrow> s)"
| "join (x # y # ys) sep = (case x of None \<Rightarrow> [] | Some s \<Rightarrow> s) @ sep @ join (y # ys) sep"

definition generateRequestKey ::
  "('j \<Rightarrow> string option) \<Rightarrow> 'j RequestConfig \<Rightarrow> string" where
  "generateRequestKey stringify config =
     join [url config, http_method config, JSON_stringify stringify (params config),
           JSON_stringify stringify (data config)] ''&''"

text \<open>
  The state of a \<open>Request\<close> object: the map \<open>pendingRequests\<close> from keys to
  cancel-token sources. A source is a number; \<open>next_source\<close> is the next one
  \<open>axios.CancelToken.source()\<close> hands out, and \<open>cancelled\<close> collects the
  sources whose \<open>cancel\<close> was called.
\<close>

record Request_state =
  pendingRequests :: "string \<rightharpoonup> nat"
  next_source :: nat
  cancelled :: "nat set"

definition new_Request :: Request_state where
  "new_Request = \<lparr>pendingRequests = Map.empty, next_source = 0, cancelled = {}\<rparr>"

text \<open>\<open>addPendingRequest\<close> changes the table and the configuration it is given.\<close>

definition addPendingRequest ::
  "('j \<Rightarrow> string option) \<Rightarrow> Request_state \<Rightarrow> 'j RequestConfig
    \<Rightarrow> Request_state \<times> 'j RequestConfig" where
  "addPendingRequest stringify st config =
     (let requestKey = generateRequestKey stringify config in
      if cancelToken config = None
      then (st\<lparr>pendingRequests := (pendingRequests st)(requestKey \<mapsto> next_source st),
               next_source := Suc (next_source st)\<rparr>,
            config\<lparr>cancelToken := Some (next_source st)\<rparr>)
      else (st, config))"

definition removePendingRequest ::
  "('j \<Rightarrow> string option) \<Rightarrow> Request_state \<Rightarrow> 'j RequestConfig \<Rightarrow> Request_state" where
  "removePendingRequest stringify st config =
     (let requestKey = generateRequestKey stringify config in
      if requestKey \<in> dom (pendingRequests st)
      then st\<lparr>pendingRequests := (pendingRequests st)(requestKey := None)\<rparr>
      else st)"

definition cancelAllRequests :: "Request_state \<Rightarrow> Request_state" where
  "cancelAllRequests st =
     st\<lparr>cancelled := cancelled st \<union> ran (pendingRequests st), pendingRequests := Map.empty\<rparr>"

definition cancelRequest ::
  "('j \<Rightarrow> string option) \<Rightarrow> Request_state \<Rightarrow> 'j RequestConfig \<Rightarrow> Request_state" where
  "cancelRequest stringify st config =
     (let requestKey = generateRequestKey stringify config in
      case pendingRequests st requestKey of
        Some source \<Rightarrow>
          st\<lparr>cancelled := insert source (cancelled st),
             pendingRequests := (pendingRequests st)(requestKey := None)\<rparr>
      | None \<Rightarrow> st)"

text \<open>
  The five request methods. Each builds \<open>requestConfig\<close> from the caller's optional
  configuration (\<open>{...config}\<close>; \<open>get\<close> also stores its \<open>params\<close>), registers it,
  and hands the processed URL, the body and the configuration to the axios instance. The
  model returns the state after registration and that call; \<open>finish\<close> is the
  \<open>finally\<close> callback.
\<close>

datatype 'j axios_call =
  AxiosCall (call_method: string) (call_url: string) (call_data: "'j option")
    (call_config: "'j RequestConfig")

definition spread :: "'j RequestConfig option \<Rightarrow> 'j RequestConfig" where
  "spread config = (case config of None \<Rightarrow> empty_config | Some c \<Rightarrow> c)"

definition Request_get ::
  "('j \<Rightarrow> string option) \<Rightarrow> Request_state \<Rightarrow> string \<Rightarrow> 'j option
    \<Rightarrow> 'j RequestConfig option \<Rightarrow> Request_state \<times> 'j axios_call" where
  "Request_get stringify st u ps config =
     (let requestConfig = (spread config)\<lparr>params := ps\<rparr>;
          (st', requestConfig') = addPendingRequest stringify st requestConfig
      in (st', AxiosCall ''get'' (processUrl u) None requestConfig'))"

definition Request_post ::
  "('j \<Rightarrow> string option) \<Rightarrow> Request_state \<Rightarrow> string \<Rightarrow> 'j option
    \<Rightarrow> 'j RequestConfig option \<Rightarrow> Request_state \<times> 'j axios_call" where
  "Request_post stringify st u d config =
     (let requestConfig = spread config;
          (st', requestConfig') = addPendingRequest stringify st requestConfig
      in (st', AxiosCall ''post'' (processUrl u) d requestConfig'))"

definition Request_put ::
  "('j \<Rightarrow> string option) \<Rightarrow> Request_state \<Rightarrow> string \<Rightarrow> 'j option
    \<Rightarrow> 'j RequestConfig option \<Rightarrow> Request_state \<times> 'j axios_call" where
  "Request_put stringify st u d config =
     (let requestConfig = spread config;
          (st', requestConfig') = addPendingRequest stringify st requestConfig
      in (st', AxiosCall ''put'' (processUrl u) d requestConfig'))"

definition Request_delete ::
  "('j \<Rightarrow> string option) \<Rightarrow> Request_state \<Rightarrow> string
    \<Rightarrow> 'j RequestConfig option \<Rightarrow> Request_state \<times> 'j axios_call" where
  "Request_delete stringify st u config =
     (let requestConfig = spread config;
          (st', requestConfig') = addPendingRequest stringify st requestConfig
      in (st', AxiosCall ''delete'' (processUrl u) None requestConfig'))"

definition Request_patch ::
  "('j \<Rightarrow> string option) \<Rightarrow> Request_state \<Rightarrow> string \<Rightarrow> 'j option
    \<Rightarrow> 'j RequestConfig option \<Rightarrow> Request_state \<times> 'j axios_call" where
  "Request_patch stringify st u d config =
     (let requestConfig = spread config;
          (st', requestConfig') = addPendingRequest stringify st requestConfig
      in (st', AxiosCall ''patch'' (processUrl u) d requestConfig'))"

definition finish ::
  "('j \<Rightarrow> string option) \<Rightarrow> Request_state \<Rightarrow> 'j axios_call \<Rightarrow> Request_state" where
  "finish stringify st c = removePendingRequest stringify st (call_config c)"

subsection \<open>Response interceptors and the retry of a failed request\<close>

text \<open>
  What the interceptors read of a response body \<open>res\<close>: its \<open>message\<close> and
  its \<open>data\<close> field (\<open>None\<close> when undefined); \<open>res_rest\<close> stands for the
  other fields.
\<close>

datatype 'j res = Res (res_message: "string option") (res_data: "'j option") (res_rest: 'j)

datatype 'j AxiosResponse = AxiosResponse (response_status: int) (response_data: "'j res")

text \<open>
  A rejection: a cancellation (\<open>axios.isCancel\<close> holds), an axios error with the
  request's configuration, the status of the response if there was one, whether the
  request was sent and a message, or the plain \<open>Error\<close> the fulfilled handler makes.
\<close>

datatype 'j failure =
  Cancel string
| AxiosError (error_config: "'j RequestConfig option") (error_response: "int option")
    (error_request: bool) (error_message: string)
| PlainError string

fun isCancel :: "'j failure \<Rightarrow> bool" where
  "isCancel (Cancel m) = True"
| "isCancel (AxiosError c r q m) = False"
| "isCancel (PlainError m) = False"

fun config_of :: "'j failure \<Rightarrow> 'j RequestConfig option" where
  "config_of (Cancel m) = None"
| "config_of (AxiosError c r q m) = c"
| "config_of (PlainError m) = None"

text \<open>What a caller of the wrapper gets when the promise is fulfilled.\<close>

datatype 'j fulfilled =
  Passed "'j res"
| Wrapped (w_code: int) (w_data: "'j res") (w_message: string) (w_success: bool)
| Unwrapped "'j AxiosResponse"

definition request_failed :: string where
  "request_failed =
     [CHR 0xE8, CHR 0xAF, CHR 0xB7, CHR 0xE6, CHR 0xB1, CHR 0x82, CHR 0xE5, CHR 0xA4, CHR 0xB1,
      CHR 0xE8, CHR 0xB4, CHR 0xA5]"

text \<open>The fulfilled handler of the response interceptor (\<open>a || b\<close> on strings).\<close>

definition on_fulfilled :: "'j AxiosResponse \<Rightarrow> 'j failure + 'j fulfilled" where
  "on_fulfilled response =
     (let res = response_data response in
      if response_status response \<noteq> 200
      then Inl (PlainError
             (case res_message res of
                None \<Rightarrow> request_failed
              | Some m \<Rightarrow> if m = [] then request_failed else m))
      else if res_data res \<noteq> None then Inr (Passed res)
      else Inr (Wrapped 200 res ''success'' True))"

text \<open>
  The rejected handler. It either rejects with the error it was given, or asks for
  \<open>axios(config)\<close> after \<open>retryDelay\<close> milliseconds, with the configuration's
  \<open>retry\<close> counted down. The message it builds for the console is not modelled.
\<close>

datatype 'j handled = Reject "'j failure" | RetryAfter int "'j RequestConfig"

definition on_rejected :: "'j failure \<Rightarrow> 'j handled" where
  "on_rejected error =
     (if isCancel error then Reject error
      else case config_of error of
        None \<Rightarrow> Reject error
      | Some config \<Rightarrow>
          (case retry config of
             None \<Rightarrow> Reject error
           | Some r \<Rightarrow>
               if r \<noteq> 0 \<and> r > 0
               then RetryAfter
                      (case retryDelay config of
                         None \<Rightarrow> 1000
                       | Some d \<Rightarrow> if d = 0 then 1000 else d)
                      (config\<lparr>retry := Some (r - 1)\<rparr>)
               else Reject error))"

text \<open>
  The network, as the wrapper sees it: what the \<open>n\<close>-th request sent gets. The axios
  core turns it into a response or an error (a status from 200 to 299 is a response, as
  the library's default \<open>validateStatus\<close> has it).
\<close>

datatype 'j transport = Responds int "'j res" | NoResponse string | Aborted string

definition dispatch :: "'j RequestConfig \<Rightarrow> 'j transport \<Rightarrow> 'j failure + 'j AxiosResponse" where
  "dispatch config t =
     (case t of
        Responds st b \<Rightarrow>
          if 200 \<le> st \<and> st < 300 then Inr (AxiosResponse st b)
          else Inl (AxiosError (Some config) (Some st) True ''Request failed'')
      | NoResponse m \<Rightarrow> Inl (AxiosError (Some config) None True m)
      | Aborted m \<Rightarrow> Inl (Cancel m))"

text \<open>
  \<open>initInterceptor\<close> installs the two handlers on \<open>service\<close>, the instance made by
  \<open>axios.create\<close>. The retry calls \<open>axios(config)\<close>, the library's default
  instance, on which this file installs nothing: its result reaches the caller as it is.
\<close>

definition axios_default ::
  "'j RequestConfig \<Rightarrow> 'j transport \<Rightarrow> 'j failure + 'j fulfilled" where
  "axios_default config t =
     (case dispatch config t of Inl e \<Rightarrow> Inl e | Inr r \<Rightarrow> Inr (Unwrapped r))"

record 'j run =
  outcome :: "'j failure + 'j fulfilled"
  waits :: "int list"
  sent :: nat

definition service_request :: "'j RequestConfig \<Rightarrow> (nat \<Rightarrow> 'j transport) \<Rightarrow> 'j run" where
  "service_request config net =
     (case dispatch config (net 0) of
        Inr response \<Rightarrow> \<lparr>outcome = on_fulfilled response, waits = [], sent = 1\<rparr>
      | Inl error \<Rightarrow>
          (case on_rejected error of
             Reject e \<Rightarrow> \<lparr>outcome = Inl e, waits = [], sent = 1\<rparr>
           | RetryAfter d config' \<Rightarrow>
               \<lparr>outcome = axios_default config' (net 1), waits = [d], sent = 2\<rparr>))"

section \<open>Errors\<close>

text \<open>
  \<open>ApiError\<close> of \<open>data.ts\<close>, and the values a \<open>catch\<close> can receive: an
  \<open>ApiError\<close>, another \<open>Error\<close> with its message, or a value that is not an
  \<open>Error\<close> (written by a label).
\<close>

datatype ApiError = ApiError (api_message: string) (api_code: int) (statusCode: int)

datatype thrown = ThrowApiError ApiError | ThrowError string | ThrowOther string

fun message_of :: "thrown \<Rightarrow> string option" where
  "message_of (ThrowApiError e) = Some (api_message e)"
| "message_of (ThrowError m) = Some m"
| "message_of (ThrowOther v) = None"

text \<open>
  \<open>NextResponse.json(body, {status})\<close>. The \<open>Response\<close> constructor behind it
  throws a \<open>RangeError\<close> for a status outside 200 to 599, and a \<open>TypeError\<close> for a
  status that allows no body (204, 205, 304); otherwise the response is made. The texts
  of the two errors are the runtime's and are not modelled.
\<close>

datatype response_error = RangeError | TypeError

record 'b NextResponse =
  status :: int
  body :: 'b

definition NextResponse_json :: "'b \<Rightarrow> int \<Rightarrow> response_error + 'b NextResponse" where
  "NextResponse_json b st =
     (if st < 200 \<or> 599 < st then Inl RangeError
      else if st = 204 \<or> st = 205 \<or> st = 304 then Inl TypeError
      else Inr \<lparr>status = st, body = b\<rparr>)"

section \<open>Upload pipeline\<close>

subsection \<open>More string operations\<close>

text \<open>\<open>s.split(sep)\<close> for a separator of one character; the result is never empty.\<close>

fun split :: "string \<Rightarrow> char \<Rightarrow> string list" where
  "split [] sep = [[]]"
| "split (c # cs) sep =
     (if c = sep then [] # split cs sep
      else (case split cs sep of [] \<Rightarrow> [[c]] | w # ws \<Rightarrow> (c # w) # ws))"

definition pop :: "'a list \<Rightarrow> 'a option" where
  "pop xs = (if xs = [] then None else Some (last xs))"

text \<open>
  \<open>toLowerCase\<close>. On a string of ASCII characters it changes the letters A to Z and
  nothing else. What the runtime makes of a string with other characters is the parameter
  \<open>lower\<close>.
\<close>

definition ascii_lower :: "char \<Rightarrow> char" where
  "ascii_lower c =
     (case map_of (zip ''ABCDEFGHIJKLMNOPQRSTUVWXYZ'' ''abcdefghijklmnopqrstuvwxyz'') c of
        None \<Rightarrow> c
      | Some l \<Rightarrow> l)"

definition toLowerCase :: "(string \<Rightarrow> string) \<Rightarrow> string \<Rightarrow> string" where
  "toLowerCase lower s = (if list_all (\<lambda>c. \<not> digit7 c) s then map ascii_lower s else lower s)"

text \<open>A number written in decimal, as a template literal does.\<close>

definition digit :: "nat \<Rightarrow> char" where
  "digit d = ''0123456789'' ! d"

fun decimal :: "nat \<Rightarrow> string" where
  "decimal n = (if 10 \<le> n then decimal (n div 10) @ [digit (n mod 10)] else [digit n])"

definition number_text :: "int \<Rightarrow> string" where
  "number_text st = (if 0 \<le> st then decimal (nat st) else CHR ''-'' # decimal (nat (- st)))"

text \<open>A template literal writes an undefined value as \<open>undefined\<close>.\<close>

definition template :: "string option \<Rightarrow> string" where
  "template v = (case v of None \<Rightarrow> ''undefined'' | Some s \<Rightarrow> s)"

subsection \<open>Configuration\<close>

text \<open>\<open>process.env\<close>, and \<open>a || b\<close> and \<open>!a\<close> on its values.\<close>

type_synonym env = "string \<rightharpoonup> string"

definition js_or :: "string option \<Rightarrow> string option \<Rightarrow> string option" where
  "js_or a b = (case a of None \<Rightarrow> b | Some s \<Rightarrow> if s = [] then b else Some s)"

definition falsy :: "string option \<Rightarrow> bool" where
  "falsy v = (v = None \<or> v = Some [])"

record OSSConfig =
  region :: "string option"
  accessKeyId :: "string option"
  accessKeySecret :: "string option"
  bucket :: "string option"

definition getOSSConfig :: "env \<Rightarrow> OSSConfig" where
  "getOSSConfig e =
     \<lparr>region = js_or (e ''OSS_REGION'') (e ''NEXT_PUBLIC_OSS_REGION''),
      accessKeyId = js_or (e ''OSS_ACCESS_KEY_ID'') (e ''NEXT_PUBLIC_OSS_ACCESS_KEY_ID''),
      accessKeySecret =
        js_or (e ''OSS_ACCESS_KEY_SECRET'') (e ''NEXT_PUBLIC_OSS_ACCESS_KEY_SECRET''),
      bucket = js_or (e ''OSS_BUCKET'') (e ''NEXT_PUBLIC_OSS_BUCKET'')\<rparr>"

record QiniuConfig =
  accessKey :: "string option"
  secretKey :: "string option"
  qiniu_bucket :: "string option"
  domain :: "string option"

definition getQiniuConfig :: "env \<Rightarrow> QiniuConfig" where
  "getQiniuConfig e =
     \<lparr>accessKey = e ''QINIU_ACCESS_KEY'', secretKey = e ''QINIU_SECRET_KEY'',
      qiniu_bucket = e ''QINIU_BUCKET'', domain = e ''QINIU_DOMAIN''\<rparr>"

text \<open>
  The constructor of the SDK's client, \<open>new OSS({region, accessKeyId, accessKeySecret,
  bucket})\<close>, is the parameter \<open>new_OSS\<close>: it checks what it is given and may throw.
  \<open>accept_OSS\<close> is a constructor that accepts its arguments, for the examples.
\<close>

datatype OSS = OSS string string string string

definition accept_OSS :: "string \<Rightarrow> string \<Rightarrow> string \<Rightarrow> string \<Rightarrow> thrown + OSS" where
  "accept_OSS r a s b = Inr (OSS r a s b)"

text \<open>The names of the entries of the configuration whose value is falsy, in order.\<close>

definition missingEnvVars :: "OSSConfig \<Rightarrow> string list" where
  "missingEnvVars config =
     map fst (filter (\<lambda>(key, v). falsy v)
       [(''region'', region config), (''accessKeyId'', accessKeyId config),
        (''accessKeySecret'', accessKeySecret config), (''bucket'', bucket config)])"

definition createOSSClient ::
  "(string \<Rightarrow> string \<Rightarrow> string \<Rightarrow> string \<Rightarrow> thrown + 'c) \<Rightarrow> env \<Rightarrow> thrown + 'c" where
  "createOSSClient new_OSS e =
     (let config = getOSSConfig e in
      if length (missingEnvVars config) > 0
      then Inl (ThrowError
             (''Alibaba OSS not configured. Missing environment variables: '' @
              join (map Some (missingEnvVars config)) '', '' @ ''.''))
      else new_OSS (the (region config)) (the (accessKeyId config))
             (the (accessKeySecret config)) (the (bucket config)))"

datatype token = UploadToken string string string

definition getQiniuToken :: "env \<Rightarrow> thrown + token" where
  "getQiniuToken e =
     (let config = getQiniuConfig e in
      if falsy (accessKey config) \<or> falsy (secretKey config) \<or> falsy (qiniu_bucket config)
      then Inl (ThrowError ''Qiniu OSS not configured. Missing AccessKey, SecretKey or Bucket.'')
      else Inr (UploadToken (the (accessKey config)) (the (secretKey config))
                  (the (qiniu_bucket config))))"

definition STORAGE_PROVIDER :: "env \<Rightarrow> string" where
  "STORAGE_PROVIDER e = the (js_or (e ''STORAGE_PROVIDER'') (Some ''aliyun''))"

record RetryConfig =
  maxRetries :: nat
  initialDelay :: nat
  maxDelay :: nat

definition RETRY_CONFIG :: RetryConfig where
  "RETRY_CONFIG = \<lparr>maxRetries = 3, initialDelay = 1000, maxDelay = 5000\<rparr>"

subsection \<open>Upload with retry\<close>

text \<open>
  What an upload does to the outside, in order: a \<open>put\<close> of an object under a key,
  and a wait of so many milliseconds. The storage service is a function from the number
  of the attempt to what the SDK's \<open>put\<close> does on it.
\<close>

datatype effect = Put string | Delay nat

definition aliyun_url :: "env \<Rightarrow> string \<Rightarrow> string" where
  "aliyun_url e filename =
     (let config = getOSSConfig e in
      ''https://'' @ template (bucket config) @ ''.'' @ template (region config) @
      ''.aliyuncs.com/'' @ filename)"

text \<open>
  \<open>uploadToAliyun\<close> (\<open>route.ts\<close>). \<open>put n\<close> is \<open>Inr r\<close> when
  \<open>client.put\<close> returns \<open>r\<close> on attempt \<open>n\<close>, and \<open>Inl err\<close> when it
  throws \<open>err\<close>. The callers start at attempt 1, the default.
\<close>

function uploadToAliyun ::
  "env \<Rightarrow> (nat \<Rightarrow> thrown + 'r) \<Rightarrow> string \<Rightarrow> nat \<Rightarrow> effect list \<times> (thrown + string)" where
  "uploadToAliyun e put filename attempt =
     (case put attempt of
        Inr r \<Rightarrow> ([Put filename], Inr (aliyun_url e filename))
      | Inl err \<Rightarrow>
          if attempt \<ge> maxRetries RETRY_CONFIG then ([Put filename], Inl err)
          else (case uploadToAliyun e put filename (attempt + 1) of
                  (effects, result) \<Rightarrow>
                    (Put filename #
                     Delay (min (initialDelay RETRY_CONFIG * 2 ^ (attempt - 1))
                              (maxDelay RETRY_CONFIG)) # effects,
                     result)))"
  by pat_completeness auto
termination
  by (relation "measure (\<lambda>(e, put, filename, attempt). maxRetries RETRY_CONFIG - attempt)") auto

text \<open>\<open>uploadWithRetry\<close> (the handler with one provider): it returns what \<open>put\<close> returned.\<close>

function uploadWithRetry ::
  "(nat \<Rightarrow> thrown + 'r) \<Rightarrow> string \<Rightarrow> nat \<Rightarrow> effect list \<times> (thrown + 'r)" where
  "uploadWithRetry put filename attempt =
     (case put attempt of
        Inr r \<Rightarrow> ([Put filename], Inr r)
      | Inl err \<Rightarrow>
          if attempt \<ge> maxRetries RETRY_CONFIG then ([Put filename], Inl err)
          else (let delayTime = min (initialDelay RETRY_CONFIG * 2 ^ (attempt - 1))
                                  (maxDelay RETRY_CONFIG)
                in case uploadWithRetry put filename (attempt + 1) of
                     (effects, result) \<Rightarrow> (Put filename # Delay delayTime # effects, result)))"
  by pat_completeness auto
termination
  by (relation "measure (\<lambda>(put, filename, attempt). maxRetries RETRY_CONFIG - attempt)") auto

text \<open>
  \<open>uploadToQiniu\<close>. The uploader calls back with \<open>respErr\<close>, or with the status
  code of the response. \<open>domain\<close> loses one \<open>/\<close> at its end.
\<close>

datatype qiniu_reply = RespErr thrown | RespInfo int

definition strip_slash :: "string \<Rightarrow> string" where
  "strip_slash d = (if endsWith d ''/'' then butlast d else d)"

definition qiniu_url :: "env \<Rightarrow> string \<Rightarrow> string" where
  "qiniu_url e filename =
     template (map_option strip_slash (domain (getQiniuConfig e))) @ ''/'' @ filename"

function uploadToQiniu ::
  "env \<Rightarrow> (nat \<Rightarrow> qiniu_reply) \<Rightarrow> string \<Rightarrow> nat \<Rightarrow> effect list \<times> (thrown + string)" where
  "uploadToQiniu e up filename attempt =
     (case getQiniuToken e of
        Inl err \<Rightarrow> ([], Inl err)
      | Inr token \<Rightarrow>
          (case up attempt of
             RespErr respErr \<Rightarrow>
               if attempt < maxRetries RETRY_CONFIG
               then (case uploadToQiniu e up filename (attempt + 1) of
                       (effects, result) \<Rightarrow>
                         (Put filename #
                          Delay (min (initialDelay RETRY_CONFIG * 2 ^ (attempt - 1))
                                   (maxDelay RETRY_CONFIG)) # effects,
                          result))
               else ([Put filename], Inl respErr)
           | RespInfo st \<Rightarrow>
               if st = 200 then ([Put filename], Inr (qiniu_url e filename))
               else ([Put filename],
                     Inl (ThrowError (''Qiniu upload failed with status '' @
                                      number_text st)))))"
  by pat_completeness auto
termination
  by (relation "measure (\<lambda>(e, up, filename, attempt). maxRetries RETRY_CONFIG - attempt)") auto

subsection \<open>The POST handlers\<close>

record File =
  file_name :: string
  file_type :: string

record FormData =
  file_field :: "File option"
  directory :: "string option"

datatype upload_body = ErrorBody string | UrlBody string

definition allowedTypes :: "string list" where
  "allowedTypes = [''text/markdown'', ''text/plain'', ''image/'', ''video/'']"

definition isAllowedType :: "File \<Rightarrow> bool" where
  "isAllowedType f =
     list_ex (\<lambda>type. startsWith (file_type f) type \<or> endsWith (file_name f) ''.md'') allowedTypes"

text \<open>\<open>file.name.split(".").pop()?.toLowerCase()\<close>.\<close>

definition extension_of :: "(string \<Rightarrow> string) \<Rightarrow> File \<Rightarrow> string option" where
  "extension_of lower f = map_option (toLowerCase lower) (pop (split (file_name f) CHR ''.''))"

definition basePath_of :: "File \<Rightarrow> string" where
  "basePath_of f =
     (if startsWith (file_type f) ''image/'' then ''images''
      else if startsWith (file_type f) ''video/'' then ''videos''
      else ''articles'')"

text \<open>The \<open>catch\<close> of both handlers: status 500 with the error's message.\<close>

definition upload_failed :: "thrown \<Rightarrow> response_error + upload_body NextResponse" where
  "upload_failed error =
     NextResponse_json
       (ErrorBody (case message_of error of
                     None \<Rightarrow> ''Upload failed''
                   | Some m \<Rightarrow> if m = [] then ''Upload failed'' else m))
       500"

text \<open>
  \<open>POST\<close> of \<open>route.ts\<close>. \<open>form\<close> is what \<open>request.formData()\<close> gives
  (\<open>Inl\<close> when it throws), \<open>uuid\<close> is the value of \<open>uuidv4()\<close>, \<open>put\<close> and
  \<open>up\<close> are the two storage services. The content of the file is not modelled. Every
  \<open>NextResponse.json\<close> of the handler has the status 200, 400 or 500, which it accepts,
  so none of them throws into the \<open>catch\<close>.
\<close>

definition POST ::
  "(string \<Rightarrow> string \<Rightarrow> string \<Rightarrow> string \<Rightarrow> thrown + 'c) \<Rightarrow> (string \<Rightarrow> string) \<Rightarrow> env
    \<Rightarrow> thrown + FormData \<Rightarrow> string \<Rightarrow> (nat \<Rightarrow> thrown + 'r) \<Rightarrow> (nat \<Rightarrow> qiniu_reply)
    \<Rightarrow> effect list \<times> (response_error + upload_body NextResponse)" where
  "POST new_OSS lower e form uuid put up =
     (case form of
        Inl err \<Rightarrow> ([], upload_failed err)
      | Inr formData \<Rightarrow>
          (let dir = the (js_or (directory formData) (Some ''articles'')) in
           case file_field formData of
             None \<Rightarrow> ([], NextResponse_json (ErrorBody ''No file provided'') 400)
           | Some f \<Rightarrow>
               if \<not> isAllowedType f
               then ([], NextResponse_json
                           (ErrorBody ''Only markdown, image and video files are allowed'') 400)
               else if falsy (extension_of lower f)
               then ([], NextResponse_json (ErrorBody ''Invalid file extension'') 400)
               else
                 (let filename = basePath_of f @ ''/'' @ dir @ ''/'' @ uuid @ ''.'' @
                                 the (extension_of lower f);
                      (effects, url) =
                        (if STORAGE_PROVIDER e = ''qiniu'' then uploadToQiniu e up filename 1
                         else (case createOSSClient new_OSS e of
                                 Inl err \<Rightarrow> ([], Inl err)
                               | Inr client \<Rightarrow> uploadToAliyun e put filename 1))
                  in case url of
                       Inl err \<Rightarrow> (effects, upload_failed err)
                     | Inr u \<Rightarrow> (effects, NextResponse_json (UrlBody u) 200))))"

text \<open>
  \<open>createOSSClient\<close> and \<open>POST\<close> of the handler with one provider: the client is
  made before the form is read, and the URL is built after the upload.
\<close>

definition createOSSClient_single ::
  "(string \<Rightarrow> string \<Rightarrow> string \<Rightarrow> string \<Rightarrow> thrown + 'c) \<Rightarrow> env \<Rightarrow> thrown + 'c" where
  "createOSSClient_single new_OSS e =
     (let config = getOSSConfig e in
      if length (missingEnvVars config) > 0
      then Inl (ThrowError
             (''OSS not configured. Missing environment variables: '' @
              join (map Some (missingEnvVars config)) '', '' @
              ''. Please configure OSS settings in .env.local''))
      else new_OSS (the (region config)) (the (accessKeyId config))
             (the (accessKeySecret config)) (the (bucket config)))"


subsection \<open>The retry schedule\<close>

text \<open>
  The wait after attempt \<open>n\<close> fails, in milliseconds, and what an upload that makes
  the attempts \<open>a\<close> to \<open>k\<close> does: a \<open>put\<close> at each, and that wait before the next.
\<close>

definition backoff :: "nat \<Rightarrow> nat" where
  "backoff n = min (1000 * 2 ^ (n - 1)) 5000"

definition attempts :: "string \<Rightarrow> nat \<Rightarrow> nat \<Rightarrow> effect list" where
  "attempts filename a k =
     concat (map (\<lambda>n. [Put filename, Delay (backoff n)]) [a..<k]) @ [Put filename]"

text \<open>What the attempt that ends a Qiniu upload gives: the URL, or the error for its status.\<close>

definition qiniu_final :: "env \<Rightarrow> string \<Rightarrow> int \<Rightarrow> thrown + string" where
  "qiniu_final e f st =
     (if st = 200 then Inr (qiniu_url e f)
      else Inl (ThrowError (''Qiniu upload failed with status '' @ number_text st)))"


text \<open>An environment with both providers configured.\<close>

definition both_env :: env where
  "both_env =
     [''OSS_REGION'' \<mapsto> ''oss-cn-hangzhou'', ''OSS_ACCESS_KEY_ID'' \<mapsto> ''id'',
      ''OSS_ACCESS_KEY_SECRET'' \<mapsto> ''secret'', ''OSS_BUCKET'' \<mapsto> ''blog'',
      ''QINIU_ACCESS_KEY'' \<mapsto> ''ak'',
      ''QINIU_SECRET_KEY'' \<mapsto> ''sk'', ''QINIU_BUCKET'' \<mapsto> ''blog'',
      ''QINIU_DOMAIN'' \<mapsto> ''https://cdn.example.com/'']"


section \<open>Response and error normalisation\<close>

subsection \<open>Documents\<close>

text \<open>
  A document is an object: a list of fields with their values, in the order of the
  object's properties. A value is \<open>null\<close>, a string, an \<open>ObjectId\<close> (written by its
  hexadecimal string, which is what its \<open>toString\<close> returns) or any other value, of a
  type \<open>'a\<close> whose \<open>toString\<close> is the parameter \<open>show\<close>. A document that is
  \<open>null\<close> or undefined is \<open>None\<close>.
\<close>

datatype ObjectId = ObjectId string

datatype 'a jsval = JNull | JStr string | JOid ObjectId | JOpaque 'a

type_synonym 'a document = "(string \<times> 'a jsval) list"

text \<open>The object without one property (\<open>const { _id, ...rest } = doc\<close>).\<close>

definition omit :: "string \<Rightarrow> 'a document \<Rightarrow> 'a document" where
  "omit key doc = filter (\<lambda>(k, v). k \<noteq> key) doc"

text \<open>\<open>_id?.toString() || ''\<close>, for the value of the property if there is one.\<close>

fun id_text :: "('a \<Rightarrow> string) \<Rightarrow> 'a jsval option \<Rightarrow> string" where
  "id_text show None = []"
| "id_text show (Some JNull) = []"
| "id_text show (Some (JStr s)) = s"
| "id_text show (Some (JOid (ObjectId hex))) = hex"
| "id_text show (Some (JOpaque a)) = show a"

definition toFrontend :: "('a \<Rightarrow> string) \<Rightarrow> 'a document option \<Rightarrow> 'a document option" where
  "toFrontend show doc =
     (case doc of
        None \<Rightarrow> None
      | Some d \<Rightarrow> Some (omit ''_id'' d @ [(''_id'', JStr (id_text show (map_of d ''_id'')))]))"

definition toMongo :: "'a document option \<Rightarrow> 'a document option" where
  "toMongo doc = (case doc of None \<Rightarrow> None | Some d \<Rightarrow> Some (omit ''_id'' d))"

definition toFrontendList ::
  "('a \<Rightarrow> string) \<Rightarrow> 'a document option list option \<Rightarrow> 'a document option list" where
  "toFrontendList show docs =
     (case docs of None \<Rightarrow> [] | Some ds \<Rightarrow> map (\<lambda>doc. toFrontend show doc) ds)"

subsection \<open>Messages\<close>


definition operation_failed :: string where
  "operation_failed =
     [CHR 0xE6, CHR 0x93, CHR 0x8D, CHR 0xE4, CHR 0xBD, CHR 0x9C, CHR 0xE5, CHR 0xA4,
      CHR 0xB1, CHR 0xE8, CHR 0xB4, CHR 0xA5]"

definition unknown_error :: string where
  "unknown_error =
     [CHR 0xE6, CHR 0x9C, CHR 0xAA, CHR 0xE7, CHR 0x9F, CHR 0xA5, CHR 0xE9, CHR 0x94,
      CHR 0x99, CHR 0xE8, CHR 0xAF, CHR 0xAF]"

definition word_missing :: string where
  "word_missing =
     [CHR 0xE4, CHR 0xB8, CHR 0x8D, CHR 0xE5, CHR 0xAD, CHR 0x98, CHR 0xE5, CHR 0x9C,
      CHR 0xA8]"

definition word_unauthorized :: string where
  "word_unauthorized =
     [CHR 0xE6, CHR 0x9C, CHR 0xAA, CHR 0xE6, CHR 0x8E, CHR 0x88, CHR 0xE6, CHR 0x9D,
      CHR 0x83]"

definition word_forbidden :: string where
  "word_forbidden =
     [CHR 0xE7, CHR 0xA6, CHR 0x81, CHR 0xE6, CHR 0xAD, CHR 0xA2]"

definition word_validation :: string where
  "word_validation =
     [CHR 0xE9, CHR 0xAA, CHR 0x8C, CHR 0xE8, CHR 0xAF, CHR 0x81]"

definition default_BAD_REQUEST :: string where
  "default_BAD_REQUEST =
     [CHR 0xE8, CHR 0xAF, CHR 0xB7, CHR 0xE6, CHR 0xB1, CHR 0x82, CHR 0xE5, CHR 0x8F,
      CHR 0x82, CHR 0xE6, CHR 0x95, CHR 0xB0, CHR 0xE9, CHR 0x94, CHR 0x99, CHR 0xE8,
      CHR 0xAF, CHR 0xAF]"

definition default_VALIDATION_ERROR :: string where
  "default_VALIDATION_ERROR =
     [CHR 0xE6, CHR 0x95, CHR 0xB0, CHR 0xE6, CHR 0x8D, CHR 0xAE, CHR 0xE9, CHR 0xAA,
      CHR 0x8C, CHR 0xE8, CHR 0xAF, CHR 0x81, CHR 0xE5, CHR 0xA4, CHR 0xB1, CHR 0xE8,
      CHR 0xB4, CHR 0xA5]"

definition default_MISSING_PARAMS :: string where
  "default_MISSING_PARAMS =
     [CHR 0xE7, CHR 0xBC, CHR 0xBA, CHR 0xE5, CHR 0xB0, CHR 0x91, CHR 0xE5, CHR 0xBF,
      CHR 0x85, CHR 0xE8, CHR 0xA6, CHR 0x81, CHR 0xE5, CHR 0x8F, CHR 0x82, CHR 0xE6,
      CHR 0x95, CHR 0xB0]"

definition default_UNAUTHORIZED :: string where
  "default_UNAUTHORIZED =
     [CHR 0xE6, CHR 0x9C, CHR 0xAA, CHR 0xE6, CHR 0x8E, CHR 0x88, CHR 0xE6, CHR 0x9D,
      CHR 0x83, CHR 0xE8, CHR 0xAE, CHR 0xBF, CHR 0xE9, CHR 0x97, CHR 0xAE]"

definition default_TOKEN_EXPIRED :: string where
  "default_TOKEN_EXPIRED =
     [CHR 0xE4, CHR 0xBB, CHR 0xA4, CHR 0xE7, CHR 0x89, CHR 0x8C, CHR 0xE5, CHR 0xB7,
      CHR 0xB2, CHR 0xE8, CHR 0xBF, CHR 0x87, CHR 0xE6, CHR 0x9C, CHR 0x9F]"

definition default_INVALID_TOKEN :: string where
  "default_INVALID_TOKEN =
     [CHR 0xE6, CHR 0x97, CHR 0xA0, CHR 0xE6, CHR 0x95, CHR 0x88, CHR 0xE7, CHR 0x9A,
      CHR 0x84, CHR 0xE4, CHR 0xBB, CHR 0xA4, CHR 0xE7, CHR 0x89, CHR 0x8C]"

definition default_FORBIDDEN :: string where
  "default_FORBIDDEN =
     [CHR 0xE7, CHR 0xA6, CHR 0x81, CHR 0xE6, CHR 0xAD, CHR 0xA2, CHR 0xE8, CHR 0xAE,
      CHR 0xBF, CHR 0xE9, CHR 0x97, CHR 0xAE]"

definition default_INSUFFICIENT_PERMISSIONS :: string where
  "default_INSUFFICIENT_PERMISSIONS =
     [CHR 0xE6, CHR 0x9D, CHR 0x83, CHR 0xE9, CHR 0x99, CHR 0x90, CHR 0xE4, CHR 0xB8,
      CHR 0x8D, CHR 0xE8, CHR 0xB6, CHR 0xB3]"

definition default_NOT_FOUND :: string where
  "default_NOT_FOUND =
     [CHR 0xE8, CHR 0xB5, CHR 0x84, CHR 0xE6, CHR 0xBA, CHR 0x90, CHR 0xE4, CHR 0xB8,
      CHR 0x8D, CHR 0xE5, CHR 0xAD, CHR 0x98, CHR 0xE5, CHR 0x9C, CHR 0xA8]"

definition default_USER_NOT_FOUND :: string where
  "default_USER_NOT_FOUND =
     [CHR 0xE7, CHR 0x94, CHR 0xA8, CHR 0xE6, CHR 0x88, CHR 0xB7, CHR 0xE4, CHR 0xB8,
      CHR 0x8D, CHR 0xE5, CHR 0xAD, CHR 0x98, CHR 0xE5, CHR 0x9C, CHR 0xA8]"

definition default_ARTICLE_NOT_FOUND :: string where
  "default_ARTICLE_NOT_FOUND =
     [CHR 0xE6, CHR 0x96, CHR 0x87, CHR 0xE7, CHR 0xAB, CHR 0xA0, CHR 0xE4, CHR 0xB8,
      CHR 0x8D, CHR 0xE5, CHR 0xAD, CHR 0x98, CHR 0xE5, CHR 0x9C, CHR 0xA8]"

definition default_CONFLICT :: string where
  "default_CONFLICT =
     [CHR 0xE8, CHR 0xB5, CHR 0x84, CHR 0xE6, CHR 0xBA, CHR 0x90, CHR 0xE5, CHR 0x86,
      CHR 0xB2, CHR 0xE7, CHR 0xAA, CHR 0x81]"

definition default_DUPLICATE_ENTRY :: string where
  "default_DUPLICATE_ENTRY =
     [CHR 0xE6, CHR 0x95, CHR 0xB0, CHR 0xE6, CHR 0x8D, CHR 0xAE, CHR 0xE5, CHR 0xB7,
      CHR 0xB2, CHR 0xE5, CHR 0xAD, CHR 0x98, CHR 0xE5, CHR 0x9C, CHR 0xA8]"

definition default_RATE_LIMIT :: string where
  "default_RATE_LIMIT =
     [CHR 0xE8, CHR 0xAF, CHR 0xB7, CHR 0xE6, CHR 0xB1, CHR 0x82, CHR 0xE8, CHR 0xBF,
      CHR 0x87, CHR 0xE4, CHR 0xBA, CHR 0x8E, CHR 0xE9, CHR 0xA2, CHR 0x91, CHR 0xE7,
      CHR 0xB9, CHR 0x81]"

definition default_INTERNAL_ERROR :: string where
  "default_INTERNAL_ERROR =
     [CHR 0xE6, CHR 0x9C, CHR 0x8D, CHR 0xE5, CHR 0x8A, CHR 0xA1, CHR 0xE5, CHR 0x99,
      CHR 0xA8, CHR 0xE5, CHR 0x86, CHR 0x85, CHR 0xE9, CHR 0x83, CHR 0xA8, CHR 0xE9,
      CHR 0x94, CHR 0x99, CHR 0xE8, CHR 0xAF, CHR 0xAF]"

definition default_DATABASE_ERROR :: string where
  "default_DATABASE_ERROR =
     [CHR 0xE6, CHR 0x95, CHR 0xB0, CHR 0xE6, CHR 0x8D, CHR 0xAE, CHR 0xE5, CHR 0xBA,
      CHR 0x93, CHR 0xE8, CHR 0xBF, CHR 0x9E, CHR 0xE6, CHR 0x8E, CHR 0xA5, CHR 0xE9,
      CHR 0x94, CHR 0x99, CHR 0xE8, CHR 0xAF, CHR 0xAF]"

definition default_EXTERNAL_API_ERROR :: string where
  "default_EXTERNAL_API_ERROR =
     [CHR 0xE5, CHR 0xA4, CHR 0x96, CHR 0xE9, CHR 0x83, CHR 0xA8, CHR 0x41, CHR 0x50,
      CHR 0x49, CHR 0xE8, CHR 0xB0, CHR 0x83, CHR 0xE7, CHR 0x94, CHR 0xA8, CHR 0xE5,
      CHR 0xA4, CHR 0xB1, CHR 0xE8, CHR 0xB4, CHR 0xA5]"

subsection \<open>Predefined errors\<close>

datatype ApiErrors_key =
  BAD_REQUEST
| VALIDATION_ERROR
| MISSING_PARAMS
| UNAUTHORIZED
| TOKEN_EXPIRED
| INVALID_TOKEN
| FORBIDDEN
| INSUFFICIENT_PERMISSIONS
| NOT_FOUND
| USER_NOT_FOUND
| ARTICLE_NOT_FOUND
| CONFLICT
| DUPLICATE_ENTRY
| RATE_LIMIT
| INTERNAL_ERROR
| DATABASE_ERROR
| EXTERNAL_API_ERROR

text \<open>A default parameter takes its default when the argument is undefined.\<close>

definition default_arg :: "'a \<Rightarrow> 'a option \<Rightarrow> 'a" where
  "default_arg d v = (case v of None \<Rightarrow> d | Some x \<Rightarrow> x)"

fun ApiErrors :: "ApiErrors_key \<Rightarrow> string option \<Rightarrow> ApiError" where
  "ApiErrors BAD_REQUEST m = ApiError (default_arg default_BAD_REQUEST m) 400 400"
| "ApiErrors VALIDATION_ERROR m = ApiError (default_arg default_VALIDATION_ERROR m) 400 400"
| "ApiErrors MISSING_PARAMS m = ApiError (default_arg default_MISSING_PARAMS m) 400 400"
| "ApiErrors UNAUTHORIZED m = ApiError (default_arg default_UNAUTHORIZED m) 401 401"
| "ApiErrors TOKEN_EXPIRED m = ApiError (default_arg default_TOKEN_EXPIRED m) 401 401"
| "ApiErrors INVALID_TOKEN m = ApiError (default_arg default_INVALID_TOKEN m) 401 401"
| "ApiErrors FORBIDDEN m = ApiError (default_arg default_FORBIDDEN m) 403 403"
| "ApiErrors INSUFFICIENT_PERMISSIONS m = ApiError (default_arg default_INSUFFICIENT_PERMISSIONS m) 403 403"
| "ApiErrors NOT_FOUND m = ApiError (default_arg default_NOT_FOUND m) 404 404"
| "ApiErrors USER_NOT_FOUND m = ApiError (default_arg default_USER_NOT_FOUND m) 404 404"
| "ApiErrors ARTICLE_NOT_FOUND m = ApiError (default_arg default_ARTICLE_NOT_FOUND m) 404 404"
| "ApiErrors CONFLICT m = ApiError (default_arg default_CONFLICT m) 409 409"
| "ApiErrors DUPLICATE_ENTRY m = ApiError (default_arg default_DUPLICATE_ENTRY m) 409 409"
| "ApiErrors RATE_LIMIT m = ApiError (default_arg default_RATE_LIMIT m) 429 429"
| "ApiErrors INTERNAL_ERROR m = ApiError (default_arg default_INTERNAL_ERROR m) 500 500"
| "ApiErrors DATABASE_ERROR m = ApiError (default_arg default_DATABASE_ERROR m) 500 500"
| "ApiErrors EXTERNAL_API_ERROR m = ApiError (default_arg default_EXTERNAL_API_ERROR m) 500 500"

subsection \<open>Response constructors\<close>

record 'a ApiResponse =
  code :: int
  success :: bool
  message :: string
  resp_data :: "'a option"
  error :: "string option"
  timestamp :: "int option"


text \<open>The first argument of \<open>errorResponse\<close>: an \<open>ApiError\<close>, another \<open>Error\<close>, or a string.\<close>

datatype error_arg = OfApiError ApiError | OfError string | OfString string

text \<open>\<open>code || statusCode\<close>.\<close>

definition code_or :: "int option \<Rightarrow> int \<Rightarrow> int" where
  "code_or c st = (case c of None \<Rightarrow> st | Some x \<Rightarrow> if x = 0 then st else x)"

definition errorResponse ::
  "int \<Rightarrow> error_arg \<Rightarrow> int option \<Rightarrow> int option
    \<Rightarrow> response_error + 'a ApiResponse NextResponse" where
  "errorResponse now err st c =
     (let st' = default_arg 500 st;
          (msg, finalCode, finalStatusCode) =
            (case err of
               OfApiError e \<Rightarrow> (api_message e, api_code e, statusCode e)
             | OfError m \<Rightarrow> (m, code_or c st', st')
             | OfString s \<Rightarrow> (s, code_or c st', st'));
          response =
            \<lparr>code = finalCode, success = False, message = operation_failed, resp_data = None,
             error = Some msg, timestamp = Some now\<rparr>
      in NextResponse_json response finalStatusCode)"

subsection \<open>withErrorHandler\<close>

text \<open>
  The wrapped handler returns a response or throws. What the wrapper makes of a returned
  response (the conversion of the documents in it) is the parameter \<open>on_success\<close>;
  the \<open>catch\<close> block is modelled in full. An error that \<open>errorResponse\<close> throws
  inside the \<open>catch\<close> leaves the wrapper: the result is then \<open>Inl\<close>.
\<close>

definition withErrorHandler ::
  "int \<Rightarrow> ('a ApiResponse NextResponse \<Rightarrow> response_error + 'a ApiResponse NextResponse)
    \<Rightarrow> thrown + 'a ApiResponse NextResponse
    \<Rightarrow> response_error + 'a ApiResponse NextResponse" where
  "withErrorHandler now on_success result =
     (case result of
        Inr response \<Rightarrow> on_success response
      | Inl (ThrowApiError e) \<Rightarrow> errorResponse now (OfApiError e) None None
      | Inl (ThrowError m) \<Rightarrow>
          if includes_str m ''not found'' \<or> includes_str m word_missing
          then errorResponse now (OfError m) (Some 404) None
          else if includes_str m ''unauthorized'' \<or> includes_str m word_unauthorized
          then errorResponse now (OfError m) (Some 401) None
          else if includes_str m ''forbidden'' \<or> includes_str m word_forbidden
          then errorResponse now (OfError m) (Some 403) None
          else if includes_str m ''validation'' \<or> includes_str m word_validation
          then errorResponse now (OfError m) (Some 400) None
          else errorResponse now (OfError m) (Some 500) None
      | Inl (ThrowOther v) \<Rightarrow> errorResponse now (OfString unknown_error) (Some 500) None)"

section \<open>Properties\<close>


subsection \<open>processUrl\<close>

lemma processUrl_kept:
  "startsWith u ''/api/'' \<or> startsWith u ''http://'' \<or> startsWith u ''https://''
   \<Longrightarrow> processUrl u = u"
  by (simp add: processUrl_def)

lemma processUrl_other:
  "\<not> (startsWith u ''/api/'' \<or> startsWith u ''http://'' \<or> startsWith u ''https://'')
   \<Longrightarrow> processUrl u =
       ''/api/'' @ (case u of [] \<Rightarrow> [] | c # r \<Rightarrow> if c = CHR ''/'' then r else u)"
  by (cases u) (auto simp add: processUrl_def startsWith_def substring_def)

text \<open>
  C7. \<open>processUrl\<close> returns a URL that starts with \<open>/api/\<close>, \<open>http://\<close> or
  \<open>https://\<close> as it is, and any other URL with one leading \<open>/\<close> removed, if it
  has one, behind \<open>/api/\<close>. Applying it twice is applying it once, and every result
  starts with one of the three prefixes.
\<close>

theorem processUrl_spec:
  "(startsWith u ''/api/'' \<or> startsWith u ''http://'' \<or> startsWith u ''https://''
      \<longrightarrow> processUrl u = u) \<and>
   (\<not> (startsWith u ''/api/'' \<or> startsWith u ''http://'' \<or> startsWith u ''https://'')
      \<longrightarrow> processUrl u =
          ''/api/'' @ (case u of [] \<Rightarrow> [] | c # r \<Rightarrow> if c = CHR ''/'' then r else u)) \<and>
   processUrl (processUrl u) = processUrl u \<and>
   (startsWith (processUrl u) ''/api/'' \<or> startsWith (processUrl u) ''http://''
      \<or> startsWith (processUrl u) ''https://'')"
proof -
  have out: "startsWith (processUrl u) ''/api/'' \<or> startsWith (processUrl u) ''http://''
      \<or> startsWith (processUrl u) ''https://''"
    by (simp add: processUrl_def startsWith_def)
  from out have "processUrl (processUrl u) = processUrl u"
    by (rule processUrl_kept)
  with out show ?thesis
    using processUrl_kept [of u] processUrl_other [of u] by blast
qed

theorem processUrl_spec_witness:
  "processUrl ''/friends'' = ''/api/friends'' \<and> processUrl ''friends'' = ''/api/friends'' \<and>
   processUrl ''https://a.b/c'' = ''https://a.b/c'' \<and> processUrl ''/api/x'' = ''/api/x'' \<and>
   processUrl (processUrl ''/friends'') = processUrl ''/friends''"
  using processUrl_spec [of "''/friends''"] processUrl_spec [of "''friends''"]
    processUrl_spec [of "''https://a.b/c''"] processUrl_spec [of "''/api/x''"]
  by (simp add: startsWith_def processUrl_def substring_def)

subsection \<open>Request keys\<close>

text \<open>
  The key of a request made by \<open>post\<close> is computed from the caller's configuration
  alone: the URL and the body go to axios as arguments of their own and are not fields
  of \<open>requestConfig\<close>.
\<close>

lemma post_key_ignores_url_and_data:
  "generateRequestKey stringify (call_config (snd (Request_post stringify st u d config))) =
   generateRequestKey stringify (spread config)"
  by (simp add: Request_post_def addPendingRequest_def generateRequestKey_def Let_def)

lemma get_key_ignores_url:
  "generateRequestKey stringify (call_config (snd (Request_get stringify st u ps config))) =
   generateRequestKey stringify ((spread config)\<lparr>params := ps\<rparr>)"
  by (simp add: Request_get_def addPendingRequest_def generateRequestKey_def Let_def)

text \<open>Configurations that agree on the four fields have the same key.\<close>

lemma same_fields_same_key:
  "url c1 = url c2 \<Longrightarrow> http_method c1 = http_method c2 \<Longrightarrow> params c1 = params c2 \<Longrightarrow> data c1 = data c2
   \<Longrightarrow> generateRequestKey stringify c1 = generateRequestKey stringify c2"
  by (simp add: generateRequestKey_def)

text \<open>
  C3. Two \<open>post\<close> requests in flight at once, to different URLs and with different
  bodies, made with no configuration of the caller's: both get the key \<open>&&&\<close>, the
  second takes the first one's place in the table (source 1 replaces source 0), the
  table holds one entry, and the first request's \<open>finally\<close> removes that entry
  while the second is still in flight.
\<close>

theorem posts_share_entry:
  "(let (s1, c1) = Request_post stringify new_Request ''/friends'' (Some d1) None;
        (s2, c2) = Request_post stringify s1 ''/upload'' (Some d2) None
    in (call_url c1, call_data c1, call_url c2, call_data c2,
        generateRequestKey stringify (call_config c1),
        generateRequestKey stringify (call_config c2),
        pendingRequests s1 ''&&&'', pendingRequests s2 ''&&&'', dom (pendingRequests s2),
        pendingRequests (finish stringify s2 c1) ''&&&''))
   = (''/api/friends'', Some d1, ''/api/upload'', Some d2, ''&&&'', ''&&&'',
      Some 0, Some 1, {''&&&''}, None)"
  by (simp add: Request_post_def addPendingRequest_def spread_def empty_config_def
      generateRequestKey_def JSON_stringify_def Let_def new_Request_def processUrl_def
      startsWith_def substring_def finish_def removePendingRequest_def)

subsection \<open>Retry\<close>

text \<open>A request is sent at most twice, whatever its retry count.\<close>

lemma service_request_sent: "sent (service_request config net) \<le> 2"
  by (simp add: service_request_def split: sum.splits handled.splits)

lemma on_rejected_cancel: "on_rejected (Cancel m) = Reject (Cancel m)"
  by (simp add: on_rejected_def)

lemma on_rejected_no_retry:
  "retry config = None \<or> retry config = Some r \<and> r \<le> 0
   \<Longrightarrow> on_rejected (AxiosError (Some config) st q m) = Reject (AxiosError (Some config) st q m)"
  by (auto simp add: on_rejected_def)

lemma on_rejected_retry:
  "retry config = Some r \<Longrightarrow> 0 < r
   \<Longrightarrow> on_rejected (AxiosError (Some config) st q m) =
       RetryAfter (case retryDelay config of None \<Rightarrow> 1000 | Some d \<Rightarrow> if d = 0 then 1000 else d)
         (config\<lparr>retry := Some (r - 1)\<rparr>)"
  by (simp add: on_rejected_def)

text \<open>
  C6. A request with \<open>retry = 2\<close> on a network that never answers: it is sent
  twice (one retry, after 1000 ms) and then rejected with the second error, while its
  configuration still holds a retry count of 1.
\<close>

theorem retry_two_retries_once:
  "service_request (empty_config\<lparr>retry := Some 2\<rparr>) (\<lambda>n. NoResponse ''Network Error'')
   = \<lparr>outcome = Inl (AxiosError (Some (empty_config\<lparr>retry := Some 1\<rparr>)) None True
                      ''Network Error''),
      waits = [1000], sent = 2\<rparr>"
  by (simp add: service_request_def dispatch_def on_rejected_def axios_default_def
      empty_config_def)

subsection \<open>Upload with retry\<close>

lemma attempts_same: "attempts f k k = [Put f]"
  by (simp add: attempts_def)

lemma attempts_step: "a < k \<Longrightarrow> attempts f a k = Put f # Delay (backoff a) # attempts f (Suc a) k"
  by (simp add: attempts_def upt_conv_Cons)

lemma retry_delay:
  "min (initialDelay RETRY_CONFIG * 2 ^ (a - Suc 0)) (maxDelay RETRY_CONFIG) = backoff a"
  by (simp add: RETRY_CONFIG_def backoff_def)

declare uploadToAliyun.simps [simp del] uploadWithRetry.simps [simp del]
  uploadToQiniu.simps [simp del]

lemma aliyun_success_from:
  assumes "a \<le> k" and "k \<le> maxRetries RETRY_CONFIG"
    and "\<forall>i. a \<le> i \<and> i < k \<longrightarrow> (\<exists>err. put i = Inl err)" and "put k = Inr r"
  shows "uploadToAliyun e put f a = (attempts f a k, Inr (aliyun_url e f))"
  using assms
proof (induction "k - a" arbitrary: a)
  case 0
  then have "a = k" by simp
  with 0 show ?case
    by (simp add: uploadToAliyun.simps [of e put f k] attempts_same)
next
  case (Suc d)
  then have less: "a < k" by simp
  with Suc.prems obtain err where err: "put a = Inl err" by auto
  have rec: "uploadToAliyun e put f (Suc a) = (attempts f (Suc a) k, Inr (aliyun_url e f))"
    using Suc.hyps Suc.prems less by (intro Suc.hyps(1)) auto
  from less Suc.prems(2) have "\<not> a \<ge> maxRetries RETRY_CONFIG" by simp
  then show ?case
    using err rec less
    by (simp add: uploadToAliyun.simps [of e put f a] retry_delay attempts_step)
qed

lemma aliyun_failure_from:
  assumes "a \<le> maxRetries RETRY_CONFIG"
    and "\<forall>i. a \<le> i \<and> i \<le> maxRetries RETRY_CONFIG \<longrightarrow> put i = Inl (err i)"
  shows "uploadToAliyun e put f a =
           (attempts f a (maxRetries RETRY_CONFIG), Inl (err (maxRetries RETRY_CONFIG)))"
  using assms
proof (induction "maxRetries RETRY_CONFIG - a" arbitrary: a)
  case 0
  then have a: "a = maxRetries RETRY_CONFIG" by simp
  with 0 have "put a = Inl (err a)" by simp
  with a show ?case
    by (simp add: uploadToAliyun.simps [of e put f "maxRetries RETRY_CONFIG"] attempts_same)
next
  case (Suc d)
  then have less: "a < maxRetries RETRY_CONFIG" by simp
  with Suc.prems have err: "put a = Inl (err a)" by auto
  have rec: "uploadToAliyun e put f (Suc a) =
      (attempts f (Suc a) (maxRetries RETRY_CONFIG), Inl (err (maxRetries RETRY_CONFIG)))"
    using Suc.hyps Suc.prems less by (intro Suc.hyps(1)) auto
  from less have "\<not> a \<ge> maxRetries RETRY_CONFIG" by simp
  then show ?case
    using err rec less
    by (simp add: uploadToAliyun.simps [of e put f a] retry_delay attempts_step)
qed

lemma retry_success_from:
  assumes "a \<le> k" and "k \<le> maxRetries RETRY_CONFIG"
    and "\<forall>i. a \<le> i \<and> i < k \<longrightarrow> (\<exists>err. put i = Inl err)" and "put k = Inr r"
  shows "uploadWithRetry put f a = (attempts f a k, Inr r)"
  using assms
proof (induction "k - a" arbitrary: a)
  case 0
  then have "a = k" by simp
  with 0 show ?case
    by (simp add: uploadWithRetry.simps [of put f k] attempts_same)
next
  case (Suc d)
  then have less: "a < k" by simp
  with Suc.prems obtain err where err: "put a = Inl err" by auto
  have rec: "uploadWithRetry put f (Suc a) = (attempts f (Suc a) k, Inr r)"
    using Suc.hyps Suc.prems less by (intro Suc.hyps(1)) auto
  from less Suc.prems(2) have "\<not> a \<ge> maxRetries RETRY_CONFIG" by simp
  then show ?case
    using err rec less
    by (simp add: uploadWithRetry.simps [of put f a] retry_delay attempts_step)
qed

lemma retry_failure_from:
  assumes "a \<le> maxRetries RETRY_CONFIG"
    and "\<forall>i. a \<le> i \<and> i \<le> maxRetries RETRY_CONFIG \<longrightarrow> put i = Inl (err i)"
  shows "uploadWithRetry put f a =
           (attempts f a (maxRetries RETRY_CONFIG), Inl (err (maxRetries RETRY_CONFIG)))"
  using assms
proof (induction "maxRetries RETRY_CONFIG - a" arbitrary: a)
  case 0
  then have a: "a = maxRetries RETRY_CONFIG" by simp
  with 0 have "put a = Inl (err a)" by simp
  with a show ?case
    by (simp add: uploadWithRetry.simps [of put f "maxRetries RETRY_CONFIG"] attempts_same)
next
  case (Suc d)
  then have less: "a < maxRetries RETRY_CONFIG" by simp
  with Suc.prems have err: "put a = Inl (err a)" by auto
  have rec: "uploadWithRetry put f (Suc a) =
      (attempts f (Suc a) (maxRetries RETRY_CONFIG), Inl (err (maxRetries RETRY_CONFIG)))"
    using Suc.hyps Suc.prems less by (intro Suc.hyps(1)) auto
  from less have "\<not> a \<ge> maxRetries RETRY_CONFIG" by simp
  then show ?case
    using err rec less
    by (simp add: uploadWithRetry.simps [of put f a] retry_delay attempts_step)
qed

lemma qiniu_reply_from:
  assumes "getQiniuToken e = Inr t" and "a \<le> k" and "k \<le> maxRetries RETRY_CONFIG"
    and "\<forall>i. a \<le> i \<and> i < k \<longrightarrow> (\<exists>err. up i = RespErr err)" and "up k = RespInfo st"
  shows "uploadToQiniu e up f a = (attempts f a k, qiniu_final e f st)"
  using assms
proof (induction "k - a" arbitrary: a)
  case 0
  then have "a = k" by simp
  with 0 show ?case
    by (simp add: uploadToQiniu.simps [of e up f k] attempts_same qiniu_final_def)
next
  case (Suc d)
  then have less: "a < k" by simp
  with Suc.prems obtain err where err: "up a = RespErr err" by auto
  have rec: "uploadToQiniu e up f (Suc a) = (attempts f (Suc a) k, qiniu_final e f st)"
    using Suc.hyps Suc.prems less by (intro Suc.hyps(1)) auto
  from less Suc.prems(3) have "a < maxRetries RETRY_CONFIG" by simp
  then show ?case
    using err rec less Suc.prems(1)
    by (simp add: uploadToQiniu.simps [of e up f a] retry_delay attempts_step)
qed

lemma qiniu_failure_from:
  assumes "getQiniuToken e = Inr t" and "a \<le> maxRetries RETRY_CONFIG"
    and "\<forall>i. a \<le> i \<and> i \<le> maxRetries RETRY_CONFIG \<longrightarrow> up i = RespErr (err i)"
  shows "uploadToQiniu e up f a =
           (attempts f a (maxRetries RETRY_CONFIG), Inl (err (maxRetries RETRY_CONFIG)))"
  using assms
proof (induction "maxRetries RETRY_CONFIG - a" arbitrary: a)
  case 0
  then have a: "a = maxRetries RETRY_CONFIG" by simp
  with 0 have "up a = RespErr (err a)" by simp
  with a 0 show ?case
    by (simp add: uploadToQiniu.simps [of e up f "maxRetries RETRY_CONFIG"] attempts_same)
next
  case (Suc d)
  then have less: "a < maxRetries RETRY_CONFIG" by simp
  with Suc.prems have err: "up a = RespErr (err a)" by auto
  have rec: "uploadToQiniu e up f (Suc a) =
      (attempts f (Suc a) (maxRetries RETRY_CONFIG), Inl (err (maxRetries RETRY_CONFIG)))"
    using Suc.hyps Suc.prems less by (intro Suc.hyps(1)) auto
  show ?case
    using err rec less Suc.prems(1)
    by (simp add: uploadToQiniu.simps [of e up f a] retry_delay attempts_step)
qed

text \<open>
  What the retry loops do, with \<open>maxRetries = 3\<close>. When the attempts before attempt
  \<open>k \<le> 3\<close> fail and attempt \<open>k\<close> succeeds, \<open>uploadToAliyun\<close> returns its URL
  and \<open>uploadWithRetry\<close> returns what \<open>put\<close> returned; when three attempts fail,
  both return the error of the third. \<open>uploadToQiniu\<close> does the same when the failures
  are errors of the transport (\<open>respErr\<close>). The wait after the failed attempt \<open>n\<close> is
  \<open>min (1000 * 2 ^ (n - 1)) 5000\<close> milliseconds: 1000 after the first, 2000 after the
  second.
\<close>

lemma upload_retry_schedule:
  "(1 \<le> k \<and> k \<le> maxRetries RETRY_CONFIG \<and>
      (\<forall>i. 1 \<le> i \<and> i < k \<longrightarrow> (\<exists>err. put i = Inl err)) \<and> put k = Inr r
    \<longrightarrow> uploadToAliyun e put f 1 = (attempts f 1 k, Inr (aliyun_url e f)) \<and>
        uploadWithRetry put f 1 = (attempts f 1 k, Inr r)) \<and>
   ((\<forall>i. 1 \<le> i \<and> i \<le> 3 \<longrightarrow> put' i = Inl (err i))
    \<longrightarrow> uploadToAliyun e put' f 1 = (attempts f 1 3, Inl (err 3)) \<and>
        uploadWithRetry put' f 1 = (attempts f 1 3, Inl (err 3))) \<and>
   (getQiniuToken e = Inr t \<and> 1 \<le> k \<and> k \<le> maxRetries RETRY_CONFIG \<and>
      (\<forall>i. 1 \<le> i \<and> i < k \<longrightarrow> (\<exists>err. up i = RespErr err)) \<and> up k = RespInfo st
    \<longrightarrow> uploadToQiniu e up f 1 =
          (attempts f 1 k,
           if st = 200 then Inr (qiniu_url e f)
           else Inl (ThrowError (''Qiniu upload failed with status '' @ number_text st)))) \<and>
   (getQiniuToken e = Inr t \<and> (\<forall>i. 1 \<le> i \<and> i \<le> 3 \<longrightarrow> up' i = RespErr (err i))
    \<longrightarrow> uploadToQiniu e up' f 1 = (attempts f 1 3, Inl (err 3))) \<and>
   maxRetries RETRY_CONFIG = 3 \<and>
   attempts f 1 1 = [Put f] \<and>
   attempts f 1 2 = [Put f, Delay 1000, Put f] \<and>
   attempts f 1 3 = [Put f, Delay 1000, Put f, Delay 2000, Put f]"
proof -
  have m: "maxRetries RETRY_CONFIG = 3" by (simp add: RETRY_CONFIG_def)
  have one: "(1::nat) \<le> maxRetries RETRY_CONFIG" by (simp add: m)
  have a1: "attempts f 1 1 = [Put f]" by (simp add: attempts_def)
  have a2: "attempts f 1 2 = [Put f, Delay 1000, Put f]"
    by (simp add: attempts_def backoff_def upt_conv_Cons)
  have a3: "attempts f 1 3 = [Put f, Delay 1000, Put f, Delay 2000, Put f]"
    by (simp add: attempts_def backoff_def upt_conv_Cons)
  show ?thesis
    using aliyun_success_from [of 1 k put r e f] retry_success_from [of 1 k put r f]
      aliyun_failure_from [OF one, of put' err e f] retry_failure_from [OF one, of put' err f]
      qiniu_reply_from [of e t 1 k up st f] qiniu_failure_from [OF _ one, of e t up' err f]
    unfolding m qiniu_final_def
    by (simp only: a1 a2 a3 simp_thms) blast
qed

lemma status_strings: "number_text 503 = ''503''" "number_text 500 = ''500''"
  by (simp_all add: number_text_def digit_def)

lemma both_env_token: "getQiniuToken both_env = Inr (UploadToken ''ak'' ''sk'' ''blog'')"
  by (simp add: getQiniuToken_def getQiniuConfig_def both_env_def falsy_def)

lemma both_env_urls:
  "aliyun_url both_env ''images/a/u.png'' =
     ''https://blog.oss-cn-hangzhou.aliyuncs.com/images/a/u.png''"
  "qiniu_url both_env ''images/a/u.png'' = ''https://cdn.example.com/images/a/u.png''"
  by (simp_all add: aliyun_url_def qiniu_url_def getOSSConfig_def
      getQiniuConfig_def both_env_def js_or_def template_def strip_slash_def endsWith_def)

text \<open>
  C1. The Qiniu provider is configured and answers the first attempt with status 500
  (no \<open>respErr\<close>). Whether the second attempt would be answered with 200, or the
  second and third would fail, the upload ends after one \<open>put\<close> with the error for
  status 500: no second attempt is made, so neither the URL nor the third error is
  returned. When the same failure of the first attempt arrives as \<open>respErr\<close>, and in
  \<open>uploadToAliyun\<close> and \<open>uploadWithRetry\<close> for any error that \<open>put\<close> throws, the
  second attempt is made after 1000 ms and its success is returned.
\<close>

theorem qiniu_status_not_retried:
  "getQiniuToken both_env = Inr (UploadToken ''ak'' ''sk'' ''blog'') \<and>
   uploadToQiniu both_env (\<lambda>n. if n = 1 then RespInfo 500 else RespInfo 200)
       ''images/a/u.png'' 1
     = ([Put ''images/a/u.png''], Inl (ThrowError ''Qiniu upload failed with status 500'')) \<and>
   uploadToQiniu both_env
       (\<lambda>n. if n = 1 then RespInfo 500
            else RespErr (ThrowError (if n = 3 then ''third'' else ''second'')))
       ''images/a/u.png'' 1
     = ([Put ''images/a/u.png''], Inl (ThrowError ''Qiniu upload failed with status 500'')) \<and>
   uploadToQiniu both_env
       (\<lambda>n. if n = 1 then RespErr (ThrowError ''status 500'') else RespInfo 200)
       ''images/a/u.png'' 1
     = ([Put ''images/a/u.png'', Delay 1000, Put ''images/a/u.png''],
        Inr ''https://cdn.example.com/images/a/u.png'') \<and>
   uploadToAliyun both_env
       (\<lambda>n. if n = 1 then Inl (ThrowError ''status 500'') else Inr ())
       ''images/a/u.png'' 1
     = ([Put ''images/a/u.png'', Delay 1000, Put ''images/a/u.png''],
        Inr ''https://blog.oss-cn-hangzhou.aliyuncs.com/images/a/u.png'') \<and>
   uploadWithRetry
       (\<lambda>n. if n = 1 then Inl (ThrowError ''status 500'') else Inr ())
       ''images/a/u.png'' 1
     = ([Put ''images/a/u.png'', Delay 1000, Put ''images/a/u.png''], Inr ())"
  by (simp add: uploadToQiniu.simps [of _ _ _ "Suc 0"] uploadToQiniu.simps [of _ _ _ "Suc (Suc 0)"]
      uploadToAliyun.simps [of _ _ _ "Suc 0"] uploadToAliyun.simps [of _ _ _ "Suc (Suc 0)"]
      uploadWithRetry.simps [of _ _ "Suc 0"] uploadWithRetry.simps [of _ _ "Suc (Suc 0)"]
      both_env_token both_env_urls status_strings RETRY_CONFIG_def)

subsection \<open>The type check of the POST handlers\<close>

text \<open>The three statuses the upload handlers use are accepted.\<close>

lemma NextResponse_json_accepted:
  "NextResponse_json b 200 = Inr \<lparr>status = 200, body = b\<rparr>"
  "NextResponse_json b 400 = Inr \<lparr>status = 400, body = b\<rparr>"
  "NextResponse_json b 500 = Inr \<lparr>status = 500, body = b\<rparr>"
  by (simp_all add: NextResponse_json_def)


lemma upload_failed_status: "\<exists>r. upload_failed err = Inr r \<and> status r = 500"
  by (simp add: upload_failed_def NextResponse_json_accepted)










lemma extension_README:
  "extension_of lower \<lparr>file_name = ''README'', file_type = ''text/plain''\<rparr> = Some ''readme''"
  by (simp add: extension_of_def pop_def toLowerCase_def ascii_lower_def)

lemma extension_Cat:
  "extension_of lower \<lparr>file_name = ''Cat.JPG'', file_type = ''image/jpeg''\<rparr> = Some ''jpg''"
  by (simp add: extension_of_def pop_def toLowerCase_def ascii_lower_def)

lemma both_env_client:
  "createOSSClient accept_OSS both_env = Inr (OSS ''oss-cn-hangzhou'' ''id'' ''secret'' ''blog'')"
  "createOSSClient_single accept_OSS both_env =
     Inr (OSS ''oss-cn-hangzhou'' ''id'' ''secret'' ''blog'')"
  by (simp_all add: createOSSClient_def createOSSClient_single_def getOSSConfig_def both_env_def
      js_or_def missingEnvVars_def falsy_def accept_OSS_def)


text \<open>A constructor that refuses what it is given: no client is made.\<close>

lemma refused_client:
  "createOSSClient_single (\<lambda>r a s b. Inl (ThrowError ''The bucket must be conform to the specifications'')
       :: thrown + OSS) both_env
     = Inl (ThrowError ''The bucket must be conform to the specifications'')"
  by (simp add: createOSSClient_single_def getOSSConfig_def both_env_def
      js_or_def missingEnvVars_def falsy_def)

lemma both_env_provider: "STORAGE_PROVIDER both_env = ''aliyun''"
  by (simp add: STORAGE_PROVIDER_def both_env_def js_or_def)

lemma allowed_examples:
  "\<not> isAllowedType \<lparr>file_name = ''setup.exe'', file_type = ''application/octet-stream''\<rparr>"
  "isAllowedType \<lparr>file_name = ''Cat.JPG'', file_type = ''image/jpeg''\<rparr>"
  "isAllowedType \<lparr>file_name = ''README'', file_type = ''text/plain''\<rparr>"
  "isAllowedType \<lparr>file_name = ''photo.'', file_type = ''image/png''\<rparr>"
  by (simp_all add: isAllowedType_def allowedTypes_def startsWith_def endsWith_def)



subsection \<open>The storage key\<close>

lemma split_no_separator: "sep \<notin> set s \<Longrightarrow> split s sep = [s]"
  by (induction s) auto

lemma extension_without_dot:
  "CHR ''.'' \<notin> set (file_name f) \<Longrightarrow>
   extension_of lower f = Some (toLowerCase lower (file_name f))"
  by (simp add: extension_of_def split_no_separator pop_def)

text \<open>
  A name of ASCII characters without a dot, if it is not empty, passes the check of the
  extension.
\<close>

lemma extension_without_dot_accepted:
  "CHR ''.'' \<notin> set (file_name f) \<Longrightarrow> file_name f \<noteq> [] \<Longrightarrow>
   list_all (\<lambda>c. \<not> digit7 c) (file_name f) \<Longrightarrow> \<not> falsy (extension_of lower f)"
  by (simp add: extension_without_dot falsy_def toLowerCase_def)

text \<open>
  The key of an accepted file, with the Aliyun provider, a client that is made and a
  first attempt that succeeds: the base path for the MIME type, the directory
  (\<open>articles\<close> when the field is absent or empty), the UUID, and the lower-cased text
  after the last dot of the file's name.
\<close>

lemma POST_storage_key:
  assumes "isAllowedType f" and "\<not> falsy (extension_of lower f)"
    and "STORAGE_PROVIDER e \<noteq> ''qiniu''" and "createOSSClient new_OSS e = Inr client"
    and "put 1 = Inr r"
  shows "POST new_OSS lower e (Inr \<lparr>file_field = Some f, directory = d\<rparr>) uuid put up =
     (let key = basePath_of f @ ''/'' @
                (case d of None \<Rightarrow> ''articles'' | Some x \<Rightarrow> if x = [] then ''articles'' else x)
                @ ''/'' @ uuid @ ''.'' @ toLowerCase lower (last (split (file_name f) CHR ''.''))
      in ([Put key], Inr \<lparr>status = 200, body = UrlBody (aliyun_url e key)\<rparr>))"
proof -
  have ext: "the (extension_of lower f) = toLowerCase lower (last (split (file_name f) CHR ''.''))"
    using assms(2) by (auto simp add: extension_of_def pop_def falsy_def split: if_splits)
  have dir: "the (js_or d (Some ''articles'')) =
      (case d of None \<Rightarrow> ''articles'' | Some x \<Rightarrow> if x = [] then ''articles'' else x)"
    by (simp add: js_or_def split: option.splits)
  show ?thesis
    using assms
    by (simp add: POST_def Let_def ext dir uploadToAliyun.simps [of e put _ "Suc 0"]
        NextResponse_json_accepted)
qed

lemma README_url:
  "aliyun_url both_env ''articles/articles/u.readme'' =
     ''https://blog.oss-cn-hangzhou.aliyuncs.com/articles/articles/u.readme''"
  by (simp add: aliyun_url_def getOSSConfig_def both_env_def js_or_def template_def)

text \<open>
  C8. A file named \<open>README\<close>, of type \<open>text/plain\<close>, has no extension. It passes
  the type check, and its whole name, lower-cased, is taken for the extension: the file
  is stored under \<open>articles/articles/u.readme\<close> and the answer is 200 with the URL,
  not 400.
\<close>

theorem README_is_uploaded:
  "POST accept_OSS lower both_env
     (Inr \<lparr>file_field = Some \<lparr>file_name = ''README'', file_type = ''text/plain''\<rparr>,
           directory = None\<rparr>)
     ''u'' (\<lambda>n. Inr ()) up
     = ([Put ''articles/articles/u.readme''],
        Inr \<lparr>status = 200,
             body = UrlBody ''https://blog.oss-cn-hangzhou.aliyuncs.com/articles/articles/u.readme''\<rparr>)"
  by (simp add: POST_def Let_def allowed_examples extension_README falsy_def both_env_provider
      both_env_client basePath_of_def startsWith_def js_or_def
      uploadToAliyun.simps [of _ _ _ "Suc 0"] README_url NextResponse_json_accepted)

subsection \<open>Documents\<close>

lemma map_of_omit: "map_of (omit key d) k = (if k = key then None else map_of d k)"
  by (induction d) (auto simp add: omit_def)

lemma omit_idem: "omit key (omit key d) = omit key d"
  by (simp add: omit_def)

lemma omit_append: "omit key (xs @ ys) = omit key xs @ omit key ys"
  by (simp add: omit_def)

lemma omit_single: "omit key [(key, v)] = []"
  by (simp add: omit_def)

text \<open>
  C9. \<open>toFrontend\<close> gives a document in which \<open>_id\<close> is the string of the old
  \<open>_id\<close> and every other field has the value it had. That string is empty when
  there was no \<open>_id\<close> or it was \<open>null\<close>, the string itself for a string, the
  hexadecimal string of an \<open>ObjectId\<close>, and the \<open>toString\<close> of any other value.
  \<open>toMongo\<close> gives a document without \<open>_id\<close> in which every other field has the
  value it had. \<open>toMongo\<close> after \<open>toFrontend\<close> is the document without its
  \<open>_id\<close>. Both return a \<open>null\<close> document as it is. \<open>toFrontendList\<close> applies
  \<open>toFrontend\<close> to every element, and gives the empty list for \<open>null\<close>.
\<close>

theorem document_conversion:
  "(\<exists>d'. toFrontend show (Some d) = Some d' \<and>
         (\<forall>k. map_of d' k =
                (if k = ''_id'' then Some (JStr (id_text show (map_of d ''_id''))) else map_of d k))) \<and>
   id_text show None = [] \<and>
   id_text show (Some JNull) = [] \<and>
   id_text show (Some (JStr s)) = s \<and>
   id_text show (Some (JOid (ObjectId hex))) = hex \<and>
   id_text show (Some (JOpaque a)) = show a \<and>
   (\<exists>d'. toMongo (Some d) = Some d' \<and>
         (\<forall>k. map_of d' k = (if k = ''_id'' then None else map_of d k))) \<and>
   toMongo (toFrontend show (Some d)) = Some (omit ''_id'' d) \<and>
   toMongo (toFrontend show (Some d)) = toMongo (Some d) \<and>
   toFrontend show None = None \<and> toMongo None = None \<and>
   toFrontendList show (Some ds) = map (toFrontend show) ds \<and>
   toFrontendList show None = []"
  by (simp add: toFrontend_def toMongo_def toFrontendList_def map_of_omit omit_append omit_idem
      omit_single map_add_def split: option.splits)

lemma document_example:
  "toFrontend (\<lambda>n::nat. ''?'') (Some [(''_id'', JOid (ObjectId ''65f0a1'')), (''name'', JStr ''Ann'')])
     = Some [(''name'', JStr ''Ann''), (''_id'', JStr ''65f0a1'')]"
  "toFrontend (\<lambda>n::nat. ''?'') (Some [(''_id'', JStr ''65f0a1''), (''name'', JStr ''Ann'')])
     = Some [(''name'', JStr ''Ann''), (''_id'', JStr ''65f0a1'')]"
  "toFrontend (\<lambda>n::nat. ''?'') (Some [(''name'', JStr ''Ann'')])
     = Some [(''name'', JStr ''Ann''), (''_id'', JStr [])]"
  "toMongo (Some [(''name'', JStr ''Ann''), (''_id'', JStr ''65f0a1'' :: nat jsval)])
     = Some [(''name'', JStr ''Ann'')]"
  by (simp_all add: toFrontend_def toMongo_def omit_def)

subsection \<open>Errors and responses\<close>



text \<open>
  C4. An error made by a constructor of \<open>ApiErrors\<close>, with or without a message, has
  a business code equal to its HTTP status, one of 400, 401, 403, 404, 409, 429 and 500;
  \<open>errorResponse\<close> of it makes a response with that HTTP status, and that code in its
  envelope, whatever the other two arguments are.
\<close>

theorem predefined_errors:
  "api_code (ApiErrors key m) = statusCode (ApiErrors key m) \<and>
   statusCode (ApiErrors key m) \<in> {400, 401, 403, 404, 409, 429, 500} \<and>
   (\<exists>r. errorResponse now (OfApiError (ApiErrors key m)) st c = Inr r \<and>
        status r = statusCode (ApiErrors key m) \<and>
        code (body r) = api_code (ApiErrors key m))"
  by (cases key) (simp_all add: errorResponse_def NextResponse_json_def Let_def)





lemma thrown_examples:
  "\<exists>r. withErrorHandler 0 on_success (Inl (ThrowError ''User not found'')) = Inr r \<and> status r = 404"
  "\<exists>r. withErrorHandler 0 on_success (Inl (ThrowError default_USER_NOT_FOUND)) = Inr r \<and> status r = 404"
  "\<exists>r. withErrorHandler 0 on_success (Inl (ThrowError ''validation of forbidden field'')) = Inr r
       \<and> status r = 403"
  "\<exists>r. withErrorHandler 0 on_success (Inl (ThrowError ''Not Found'')) = Inr r \<and> status r = 500"
  by (simp_all add: withErrorHandler_def errorResponse_def NextResponse_json_def Let_def
      default_arg_def startsWith_def
      default_USER_NOT_FOUND_def word_missing_def word_unauthorized_def word_forbidden_def
      word_validation_def)




end
